theory Spec2Isabelle
  imports Main "HOL-Library.Monad_Syntax"
begin

section \<open>Values shared by the whole package\<close>

text \<open>
  The package \<open>app\<close> supervises gRPC servers, HTTP servers, a pgx connection pool and
  named sub-services. Its functions are embedded as HOL functions over a record of the
  \<open>Service\<close> struct. Everything the package calls but does not define (the network, the
  gRPC and pgx libraries, the signal trap) is a field of the record \<open>env\<close>, so that every
  theorem holds for whatever those collaborators answer. Calls to the logger change no
  value and no control flow and are left out.

  A Go \<open>error\<close> is a message with an optional wrapped cause; the nil error is \<open>None\<close> of
  \<open>error option\<close>. \<open>errors_Is\<close> walks the chain of causes as \<open>errors.Is\<close> does. Two
  errors are the same value when message and cause agree, which stands for Go's \<open>==\<close> on
  them.
\<close>

datatype error = errorString string | wrapError string error

definition errors_New :: "string \<Rightarrow> error" where
  "errors_New text = errorString text"

fun errors_Is :: "error \<Rightarrow> error \<Rightarrow> bool" where
  "errors_Is (errorString m) target = (errorString m = target)"
| "errors_Is (wrapError m cause) target = (wrapError m cause = target \<or> errors_Is cause target)"

text \<open>\<open>time.Duration\<close> counts nanoseconds.\<close>

type_synonym Duration = int

definition Second :: Duration where
  "Second = 1000000000"

datatype Context = Background | WithTimeout Context Duration | CallerContext string

section \<open>The data model\<close>

text \<open>
  A \<open>SubService\<close> is an interface value; the record holds what each of its three methods
  answers when the package calls it.
\<close>

record SubService =
  sub_Ready :: bool
  sub_Name :: string
  sub_Close :: "error option"

text \<open>
  A \<open>grpc.Server\<close> is known to the package by the services registered on it: pairs of the
  service description's name and a handle of the implementation. \<open>RegisterService\<close> is
  the library's; it is taken to return, and what the library itself refuses (a service
  registered twice, a server that serves already) is not modelled.
\<close>

type_synonym ServiceDesc = string

record grpc_Server =
  registered :: "(ServiceDesc \<times> nat) list"

definition grpc_NewServer :: grpc_Server where
  "grpc_NewServer = \<lparr>registered = []\<rparr>"

definition RegisterService :: "grpc_Server \<Rightarrow> ServiceDesc \<Rightarrow> nat \<Rightarrow> grpc_Server" where
  "RegisterService srv description service =
     srv\<lparr>registered := registered srv @ [(description, service)]\<rparr>"

record GRPCServer =
  address :: string
  server :: grpc_Server

text \<open>The routes that the technical HTTP server's router is given, in the order of the calls.\<close>

datatype route =
    Use_Recoverer
  | Mount_debug_pprof
  | Register_Telemetry
  | Register_Readiness
  | Get_health_live

record http_Server =
  Addr :: string
  Handler :: "route list"
  ReadTimeout :: Duration
  WriteTimeout :: Duration
  MaxHeaderBytes :: int

datatype Pool = Pool string

datatype chan = chan_open | chan_closed

datatype SignalTrap = TermSignalTrap

text \<open>
  The struct \<open>Service\<close>. A nil slice is the empty list and a nil \<open>DB\<close> is \<open>None\<close>. The
  test \<open>GRPCServers != nil\<close> is the test for a non-empty list: on a slice that is empty
  but not nil the source calls \<open>checkGRPCServerUp\<close>, which returns true when there is no
  server, the value of the other branch. The entries of the slices are not nil. The map
  \<open>SubServices\<close> is a list of keyed entries: its order stands for the order in which one
  \<open>range\<close> over the map visits them, which Go leaves open. \<open>isReady\<close> is the value held
  by the \<open>atomic.Value\<close>. The zero \<open>time.Time\<close> of \<open>startTime\<close> is 0.
\<close>

record Service =
  Name :: string
  ctx :: Context
  GRPCServers :: "GRPCServer list"
  HTTPServers :: "http_Server list"
  DB :: "Pool option"
  isReady :: bool
  ErrChan :: chan
  SubServices :: "(string \<times> SubService) list"
  sigHandler :: SignalTrap
  startTime :: int
  version :: string

text \<open>
  What the surroundings answer. \<open>net_DialTimeout e a d k\<close> is the result of the \<open>k\<close>-th
  dial that one probe makes to address \<open>a\<close> with timeout \<open>d\<close>; \<open>SignalTrap_Wait\<close> is
  \<open>None\<close> when the wait never returns. \<open>ErrTermSig\<close> is the sentinel that the signal trap
  declares.
\<close>

record env =
  time_Now :: int
  net_DialTimeout :: "string \<Rightarrow> Duration \<Rightarrow> nat \<Rightarrow> error option"
  grpc_NewClient :: "string \<Rightarrow> error option"
  Pool_Ping :: "Pool \<Rightarrow> Context \<Rightarrow> error option"
  http_Shutdown :: "http_Server \<Rightarrow> Context \<Rightarrow> error option"
  SignalTrap_Wait :: "Context \<Rightarrow> error option option"
  ErrTermSig :: error
  pgxpool_ParseConfig :: "string \<Rightarrow> error + string"
  pgxpool_NewWithConfig :: "Context \<Rightarrow> string \<Rightarrow> error + Pool"

section \<open>Registering servers and services\<close>

definition GetContext :: "Service \<Rightarrow> Context" where
  "GetContext s = ctx s"

definition SetContext :: "Service \<Rightarrow> Context \<Rightarrow> Service" where
  "SetContext s c = s\<lparr>ctx := c\<rparr>"

definition AddHTTPServer :: "Service \<Rightarrow> http_Server \<Rightarrow> Service" where
  "AddHTTPServer s httpServer = s\<lparr>HTTPServers := HTTPServers s @ [httpServer]\<rparr>"

text \<open>
  The loop of \<open>AddGRPCService\<close>: the first server whose address is \<open>serverName\<close> gets the
  service and the loop returns; \<open>None\<close> means the loop ran to its end.
\<close>

fun AddGRPCService_range ::
  "GRPCServer list \<Rightarrow> string \<Rightarrow> nat \<Rightarrow> ServiceDesc \<Rightarrow> GRPCServer list option" where
  "AddGRPCService_range [] serverName service description = None"
| "AddGRPCService_range (grpcServer # rest) serverName service description =
     (if address grpcServer = serverName
      then Some (grpcServer\<lparr>server := RegisterService (server grpcServer) description service\<rparr> # rest)
      else map_option ((#) grpcServer) (AddGRPCService_range rest serverName service description))"

definition AddGRPCService ::
  "Service \<Rightarrow> string \<Rightarrow> nat \<Rightarrow> ServiceDesc \<Rightarrow> error option \<times> Service" where
  "AddGRPCService s serverName service description =
     (case AddGRPCService_range (GRPCServers s) serverName service description of
        Some servers \<Rightarrow> (None, s\<lparr>GRPCServers := servers\<rparr>)
      | None \<Rightarrow> (Some (errors_New ''gRPC server not found''), s))"

section \<open>Configuration mutators and the constructor\<close>

text \<open>
  \<open>Option\<close> is an interface. The package implements it four times; \<open>OtherOption\<close> is
  an implementation supplied by the caller, given by what its \<open>Apply\<close> does to the service
  and what it returns. A \<open>DBOption\<close> is known by the connection string of its
  configuration.
\<close>

datatype Option =
    GRPCServerOption string
  | TechHTTPServerOption string
  | DBOption string
  | RedisOption
  | OtherOption "Service \<Rightarrow> error option \<times> Service"

definition DefaultMaxHeaderBytes :: int where
  "DefaultMaxHeaderBytes = 1048576"

fun Apply :: "env \<Rightarrow> Option \<Rightarrow> Service \<Rightarrow> error option \<times> Service" where
  "Apply e (GRPCServerOption addr) s =
     (let grpcSrv = grpc_NewServer
      in (None, s\<lparr>GRPCServers := GRPCServers s @ [\<lparr>address = addr, server = grpcSrv\<rparr>]\<rparr>))"
| "Apply e (TechHTTPServerOption addr) s =
     (let r = [Use_Recoverer, Mount_debug_pprof, Register_Telemetry, Register_Readiness,
               Get_health_live]
      in (None, s\<lparr>HTTPServers := HTTPServers s @
            [\<lparr>Addr = addr, Handler = r, ReadTimeout = 10 * Second, WriteTimeout = 10 * Second,
              MaxHeaderBytes = DefaultMaxHeaderBytes\<rparr>]\<rparr>))"
| "Apply e (DBOption connString) s =
     (case pgxpool_ParseConfig e connString of
        Inl err \<Rightarrow> (Some err, s)
      | Inr poolConfig \<Rightarrow>
          (case pgxpool_NewWithConfig e Background poolConfig of
             Inl err \<Rightarrow> (Some err, s)
           | Inr p \<Rightarrow> (None, s\<lparr>DB := Some p\<rparr>)))"
| "Apply e RedisOption s = (None, s)"
| "Apply e (OtherOption f) s = f s"

text \<open>The loop of \<open>New\<close> over the options; the result is Go's pair of a pointer and an error.\<close>

fun New_range :: "env \<Rightarrow> Service \<Rightarrow> Option list \<Rightarrow> Service option \<times> error option" where
  "New_range e s [] = (Some s, None)"
| "New_range e s (opt # rest) =
     (case Apply e opt s of
        (Some err, s') \<Rightarrow> (None, Some err)
      | (None, s') \<Rightarrow> New_range e s' rest)"

definition New_Service :: "Context \<Rightarrow> string \<Rightarrow> Service" where
  "New_Service c name =
     \<lparr>Name = name, ctx = c, GRPCServers = [], HTTPServers = [], DB = None, isReady = False,
      ErrChan = chan_open, SubServices = [], sigHandler = TermSignalTrap, startTime = 0,
      version = []\<rparr>"

definition New :: "env \<Rightarrow> Context \<Rightarrow> string \<Rightarrow> Option list \<Rightarrow> Service option \<times> error option" where
  "New e c name options = New_range e (New_Service c name) options"

section \<open>Liveness and readiness\<close>

text \<open>
  The loop of \<open>checkHTTPServerUp\<close> dials until a dial succeeds. It has no other exit, so
  it is a partial function: \<open>None\<close> is the run that never returns. The loop variable
  \<open>err\<close> starts as a non-nil error; \<open>k\<close> counts the dials made so far.
\<close>

partial_function (option) checkHTTPServerUp_loop ::
  "env \<Rightarrow> http_Server \<Rightarrow> error option \<Rightarrow> nat \<Rightarrow> bool option" where
  "checkHTTPServerUp_loop e httpServer err k =
     (if err \<noteq> None
      then checkHTTPServerUp_loop e httpServer
             (net_DialTimeout e (Addr httpServer) (1 * Second) k) (Suc k)
      else Some True)"

definition checkHTTPServerUp :: "env \<Rightarrow> http_Server \<Rightarrow> bool option" where
  "checkHTTPServerUp e httpServer =
     checkHTTPServerUp_loop e httpServer (Some (errors_New ''http server not ready'')) 0"

fun checkGRPCServerUp_range :: "env \<Rightarrow> GRPCServer list \<Rightarrow> bool" where
  "checkGRPCServerUp_range e [] = True"
| "checkGRPCServerUp_range e (srv # rest) =
     (case grpc_NewClient e (address srv) of
        Some err \<Rightarrow> False
      | None \<Rightarrow> checkGRPCServerUp_range e rest)"

definition checkGRPCServerUp :: "env \<Rightarrow> Service \<Rightarrow> bool" where
  "checkGRPCServerUp e s = checkGRPCServerUp_range e (GRPCServers s)"

definition checkDBAlive :: "env \<Rightarrow> Service \<Rightarrow> bool" where
  "checkDBAlive e s =
     (case DB s of
        None \<Rightarrow> True
      | Some p \<Rightarrow> (case Pool_Ping e p (ctx s) of Some err \<Rightarrow> False | None \<Rightarrow> True))"

definition checkRedisAlive :: "Service \<Rightarrow> bool" where
  "checkRedisAlive s = False"

text \<open>
  The loop over the HTTP servers, which \<open>IsAlive\<close> and \<open>Ready\<close> both have: the flag
  starts true and is cleared when a probe answers false.
\<close>

fun HTTPServers_range :: "env \<Rightarrow> http_Server list \<Rightarrow> bool \<Rightarrow> bool option" where
  "HTTPServers_range e [] areUp = Some areUp"
| "HTTPServers_range e (httpServer # rest) areUp =
     (case checkHTTPServerUp e httpServer of
        None \<Rightarrow> None
      | Some up \<Rightarrow> HTTPServers_range e rest (if \<not> up then False else areUp))"

definition IsAlive :: "env \<Rightarrow> Service \<Rightarrow> bool option" where
  "IsAlive e s = do {
     let isGrpcAlive = (if GRPCServers s \<noteq> [] then checkGRPCServerUp e s else True);
     areHTTPServersAlive \<leftarrow> HTTPServers_range e (HTTPServers s) True;
     let isDBAlive = (if DB s \<noteq> None \<and> \<not> checkDBAlive e s then False else True);
     Some (isGrpcAlive \<and> areHTTPServersAlive \<and> isDBAlive)
   }"

fun Ready_SubServices :: "(string \<times> SubService) list \<Rightarrow> bool \<Rightarrow> bool" where
  "Ready_SubServices [] areReady = areReady"
| "Ready_SubServices ((key, subService) # rest) areReady =
     Ready_SubServices rest (if \<not> sub_Ready subService then False else areReady)"

text \<open>\<open>Ready\<close> returns the service after the swap of \<open>isReady\<close>, when it returns.\<close>

definition Ready :: "env \<Rightarrow> Service \<Rightarrow> Service option" where
  "Ready e s = do {
     let areSubServicesReady = Ready_SubServices (SubServices s) True;
     let isGRPCReady = (if GRPCServers s \<noteq> [] then checkGRPCServerUp e s else True);
     areHTTPServersReady \<leftarrow> HTTPServers_range e (HTTPServers s) True;
     let isDBReady = (if DB s \<noteq> None \<and> \<not> checkDBAlive e s then False else True);
     Some (s\<lparr>isReady := areSubServicesReady \<and> isGRPCReady \<and> areHTTPServersReady \<and> isDBReady\<rparr>)
   }"

section \<open>Start and Stop\<close>

text \<open>
  \<open>Start\<close> launches goroutines and then waits for the signal trap. The model lists the
  goroutines in the order of their \<open>go\<close> statements and returns, with them, the error of
  \<open>Start\<close> and the service after the store of \<open>startTime\<close>. What the goroutines do
  afterwards is their own run and no part of the value of \<open>Start\<close>.
\<close>

datatype goroutine =
    go_ListenAndServe string
  | go_grpc_Serve string
  | go_Ready
  | go_range_ErrChan

fun Start_HTTPServers :: "http_Server list \<Rightarrow> goroutine list \<Rightarrow> goroutine list" where
  "Start_HTTPServers [] gs = gs"
| "Start_HTTPServers (httpServ # rest) gs =
     Start_HTTPServers rest (gs @ [go_ListenAndServe (Addr httpServ)])"

fun Start_GRPCServers :: "GRPCServer list \<Rightarrow> goroutine list \<Rightarrow> goroutine list" where
  "Start_GRPCServers [] gs = gs"
| "Start_GRPCServers (grpcServer # rest) gs =
     Start_GRPCServers rest (gs @ [go_grpc_Serve (address grpcServer)])"

definition Start :: "env \<Rightarrow> Service \<Rightarrow> (error option \<times> Service \<times> goroutine list) option" where
  "Start e s0 =
     (let s = s0\<lparr>startTime := time_Now e\<rparr>;
          c = GetContext s;
          gs1 = Start_HTTPServers (HTTPServers s) [];
          gs2 = Start_GRPCServers (GRPCServers s) gs1;
          gs3 = gs2 @ [go_Ready]
      in case SignalTrap_Wait e c of
           None \<Rightarrow> None
         | Some None \<Rightarrow> Some (None, s, gs3 @ [go_range_ErrChan])
         | Some (Some err) \<Rightarrow>
             (if \<not> errors_Is err (ErrTermSig e)
              then Some (Some err, s, gs3)
              else Some (None, s, gs3 @ [go_range_ErrChan])))"

text \<open>
  \<open>Stop\<close> calls its collaborators one after the other. The model returns the calls in
  the order in which they are made and the service afterwards. The context of 30 seconds
  is made on entry, before the first call; its deferred \<open>cancel\<close> frees a timer and is
  left out. Closing a channel that is closed already panics, which is \<open>Inl\<close>. Each call
  is taken to return, and a call fails by the error that it returns; the result of
  \<open>Close\<close> and of \<open>Shutdown\<close> is looked at as the source does, where both branches only
  write to the log.
\<close>

datatype call =
    SubService_Close string
  | GracefulStop string
  | Shutdown string Context
  | DB_Close Pool
  | close_ErrChan

fun Stop_SubServices :: "(string \<times> SubService) list \<Rightarrow> call list \<Rightarrow> call list" where
  "Stop_SubServices [] calls = calls"
| "Stop_SubServices ((key, service) # rest) calls =
     (case sub_Close service of
        Some err \<Rightarrow> Stop_SubServices rest (calls @ [SubService_Close key])
      | None \<Rightarrow> Stop_SubServices rest (calls @ [SubService_Close key]))"

fun Stop_GRPCServers :: "GRPCServer list \<Rightarrow> call list \<Rightarrow> call list" where
  "Stop_GRPCServers [] calls = calls"
| "Stop_GRPCServers (grpcServer # rest) calls =
     Stop_GRPCServers rest (calls @ [GracefulStop (address grpcServer)])"

fun Stop_HTTPServers :: "env \<Rightarrow> Context \<Rightarrow> http_Server list \<Rightarrow> call list \<Rightarrow> call list" where
  "Stop_HTTPServers e shutdownCtx [] calls = calls"
| "Stop_HTTPServers e shutdownCtx (httpServer # rest) calls =
     (case http_Shutdown e httpServer shutdownCtx of
        Some err \<Rightarrow> Stop_HTTPServers e shutdownCtx rest (calls @ [Shutdown (Addr httpServer) shutdownCtx])
      | None \<Rightarrow> Stop_HTTPServers e shutdownCtx rest (calls @ [Shutdown (Addr httpServer) shutdownCtx]))"

definition Stop :: "env \<Rightarrow> Service \<Rightarrow> call list \<times> (string + Service)" where
  "Stop e s =
     (let shutdownCtx = WithTimeout Background (30 * Second);
          calls1 = Stop_SubServices (SubServices s) [];
          calls2 = Stop_GRPCServers (GRPCServers s) calls1;
          calls3 = Stop_HTTPServers e shutdownCtx (HTTPServers s) calls2;
          calls4 = (case DB s of Some p \<Rightarrow> calls3 @ [DB_Close p] | None \<Rightarrow> calls3);
          calls5 = calls4 @ [close_ErrChan]
      in case ErrChan s of
           chan_closed \<Rightarrow> (calls5, Inl ''close of closed channel'')
         | chan_open \<Rightarrow> (calls5, Inr (s\<lparr>ErrChan := chan_closed\<rparr>)))"

section \<open>The liveness endpoint\<close>

text \<open>
  An \<open>http.ResponseWriter\<close> as the handler sees it: the header map, the status code once
  the header has been written, the body written so far, and the error that \<open>Write\<close>
  returns on this connection (\<open>None\<close> when writing works). \<open>WriteHeader\<close> does nothing
  when the header has been written and panics (\<open>Inl\<close>) on a code that is no status code.
\<close>

record ResponseWriter =
  header :: "string \<rightharpoonup> string"
  status :: "int option"
  body :: string
  Write_error :: "error option"

definition StatusOK :: int where
  "StatusOK = 200"

definition StatusInternalServerError :: int where
  "StatusInternalServerError = 500"

definition StatusServiceUnavailable :: int where
  "StatusServiceUnavailable = 503"

definition Header_Set :: "ResponseWriter \<Rightarrow> string \<Rightarrow> string \<Rightarrow> ResponseWriter" where
  "Header_Set w key v = w\<lparr>header := (header w)(key \<mapsto> v)\<rparr>"

definition Header_Del :: "ResponseWriter \<Rightarrow> string \<Rightarrow> ResponseWriter" where
  "Header_Del w key = w\<lparr>header := (header w)(key := None)\<rparr>"

definition WriteHeader :: "ResponseWriter \<Rightarrow> int \<Rightarrow> string + ResponseWriter" where
  "WriteHeader w code =
     (if status w \<noteq> None then Inr w
      else if code < 100 \<or> 999 < code then Inl ''invalid WriteHeader code''
      else Inr (w\<lparr>status := Some code\<rparr>))"

definition Write :: "ResponseWriter \<Rightarrow> string \<Rightarrow> ResponseWriter \<times> error option" where
  "Write w b =
     (let w1 = (if status w = None then w\<lparr>status := Some StatusOK\<rparr> else w)
      in case Write_error w1 of
           Some err \<Rightarrow> (w1, Some err)
         | None \<Rightarrow> (w1\<lparr>body := body w1 @ b\<rparr>, None))"

text \<open>
  \<open>http.Error\<close> of the standard library: it sets the headers of a plain-text reply, writes
  the header and prints the message with a newline, ignoring the result of the print.
\<close>

definition http_Error :: "ResponseWriter \<Rightarrow> string \<Rightarrow> int \<Rightarrow> string + ResponseWriter" where
  "http_Error w msg code =
     (let w1 = Header_Del w ''Content-Length'';
          w2 = Header_Set w1 ''Content-Type'' ''text/plain; charset=utf-8'';
          w3 = Header_Set w2 ''X-Content-Type-Options'' ''nosniff''
      in case WriteHeader w3 code of
           Inl p \<Rightarrow> Inl p
         | Inr w4 \<Rightarrow> Inr (fst (Write w4 (msg @ [CHR 0x0A]))))"

text \<open>
  \<open>json.Marshal\<close> on the struct \<open>errorResponse\<close>, which has no field tags: an object of
  the two fields under their Go names, the integer in decimal and the string quoted and
  escaped. Bytes from 0x80 on are copied as they are. Marshalling an integer and a
  string never fails, so the result is always \<open>Inr\<close>.
\<close>

record errorResponse =
  ErrorCode :: int
  ErrorDetails :: string

fun decimal :: "nat \<Rightarrow> string" where
  "decimal n =
     (if n < 10 then [char_of (48 + n)] else decimal (n div 10) @ [char_of (48 + n mod 10)])"

definition strconv_Itoa :: "int \<Rightarrow> string" where
  "strconv_Itoa i = (if i < 0 then CHR ''-'' # decimal (nat (- i)) else decimal (nat i))"

definition hex_digit :: "nat \<Rightarrow> char" where
  "hex_digit n = (if n < 10 then char_of (48 + n) else char_of (87 + n))"

definition json_byte :: "char \<Rightarrow> string" where
  "json_byte c =
     (let b = (of_char c :: nat) in
      if b = 0x22 \<or> b = 0x5C then [CHR 0x5C, c]
      else if b = 0x08 then [CHR 0x5C, CHR ''b'']
      else if b = 0x0C then [CHR 0x5C, CHR ''f'']
      else if b = 0x0A then [CHR 0x5C, CHR ''n'']
      else if b = 0x0D then [CHR 0x5C, CHR ''r'']
      else if b = 0x09 then [CHR 0x5C, CHR ''t'']
      else if b < 0x20 \<or> b = 0x3C \<or> b = 0x3E \<or> b = 0x26
        then [CHR 0x5C, CHR ''u'', CHR ''0'', CHR ''0'', hex_digit (b div 16), hex_digit (b mod 16)]
      else [c])"

definition json_string :: "string \<Rightarrow> string" where
  "json_string s = [CHR 0x22] @ concat (map json_byte s) @ [CHR 0x22]"

definition json_Marshal :: "errorResponse \<Rightarrow> error + string" where
  "json_Marshal r =
     Inr (''{'' @ json_string ''ErrorCode'' @ '':'' @ strconv_Itoa (ErrorCode r) @ '','' @
          json_string ''ErrorDetails'' @ '':'' @ json_string (ErrorDetails r) @ ''}'')"

definition AnswerWithJSONError :: "ResponseWriter \<Rightarrow> int \<Rightarrow> string + ResponseWriter" where
  "AnswerWithJSONError w code =
     (case json_Marshal \<lparr>ErrorCode = code, ErrorDetails = ''error during request processing''\<rparr> of
        Inl err \<Rightarrow> http_Error w ''failed to marshal error response'' StatusInternalServerError
      | Inr jsonResponse \<Rightarrow>
          (let w1 = Header_Set w ''Content-Type'' ''application/json''
           in case WriteHeader w1 code of
                Inl p \<Rightarrow> Inl p
              | Inr w2 \<Rightarrow>
                  (case Write w2 jsonResponse of
                     (w3, Some err) \<Rightarrow>
                       http_Error w3 ''failed to write error response to writer''
                         StatusInternalServerError
                   | (w3, None) \<Rightarrow> Inr w3)))"

text \<open>
  A \<open>Checker\<close> is a function without arguments; the model holds what the call gives:
  \<open>Some\<close> of its answer, or \<open>None\<close> when the call never returns. The handler that
  \<open>alive\<close> builds, run on a response writer, gives the writer afterwards.
\<close>

type_synonym Checker = "bool option"

fun alive :: "Checker list \<Rightarrow> ResponseWriter \<Rightarrow> (string + ResponseWriter) option" where
  "alive [] w = Some (WriteHeader w StatusOK)"
| "alive (isAlive # rest) w =
     (case isAlive of
        None \<Rightarrow> None
      | Some up \<Rightarrow>
          (if \<not> up then Some (AnswerWithJSONError w StatusServiceUnavailable)
           else alive rest w))"

text \<open>The handler that \<open>TechHTTPServerOption\<close> registers checks \<open>IsAlive\<close> of its service.\<close>

definition NewHealthHandler :: "Checker list \<Rightarrow> Checker list" where
  "NewHealthHandler areAlive = areAlive"

definition health_live :: "env \<Rightarrow> Service \<Rightarrow> ResponseWriter \<Rightarrow> (string + ResponseWriter) option" where
  "health_live e s w = alive (NewHealthHandler [IsAlive e s]) w"

section \<open>Concrete surroundings and services\<close>

text \<open>
  Values at which the theorems below are run: surroundings in which every call succeeds,
  surroundings in which an HTTP server accepts the third dial only and every \<open>Shutdown\<close>
  fails, surroundings in which no dial is ever accepted, surroundings in which the pool cannot
  be opened, in which the signal trap fails, and in which the pool does not answer a
  ping; a service that holds one server of each kind, a pool and two sub-services; a
  mutator of the caller's own, which renames the service; and a response writer on
  which nothing has been written.
\<close>

definition env_up :: env where
  "env_up =
     \<lparr>time_Now = 1700000000,
      net_DialTimeout = (\<lambda>addr d k. None),
      grpc_NewClient = (\<lambda>addr. None),
      Pool_Ping = (\<lambda>p c. None),
      http_Shutdown = (\<lambda>h c. None),
      SignalTrap_Wait = (\<lambda>c. Some (Some (errorString ''termination signal''))),
      ErrTermSig = errorString ''termination signal'',
      pgxpool_ParseConfig = (\<lambda>connString. Inr connString),
      pgxpool_NewWithConfig = (\<lambda>c poolConfig. Inr (Pool poolConfig))\<rparr>"

definition env_slow :: env where
  "env_slow =
     env_up\<lparr>net_DialTimeout :=
              (\<lambda>addr d k. if k < 2 then Some (errorString ''connection refused'') else None),
            http_Shutdown := (\<lambda>h c. Some (errorString ''context deadline exceeded''))\<rparr>"

definition env_down :: env where
  "env_down = env_up\<lparr>net_DialTimeout := (\<lambda>addr d k. Some (errorString ''connection refused''))\<rparr>"

definition tech_Server :: http_Server where
  "tech_Server =
     \<lparr>Addr = '':8080'',
      Handler = [Use_Recoverer, Mount_debug_pprof, Register_Telemetry, Register_Readiness,
                 Get_health_live],
      ReadTimeout = 10 * Second, WriteTimeout = 10 * Second,
      MaxHeaderBytes = DefaultMaxHeaderBytes\<rparr>"

definition full_Service :: Service where
  "full_Service =
     (New_Service Background ''orders'')
       \<lparr>GRPCServers := [\<lparr>address = '':9090'', server = grpc_NewServer\<rparr>],
        HTTPServers := [tech_Server],
        DB := Some (Pool ''postgres://orders''),
        SubServices :=
          [(''cache'', \<lparr>sub_Ready = True, sub_Name = ''cache'',
                       sub_Close = Some (errorString ''cache: flush failed'')\<rparr>),
           (''queue'', \<lparr>sub_Ready = False, sub_Name = ''queue'', sub_Close = None\<rparr>)]\<rparr>"

definition env_no_db :: env where
  "env_no_db =
     env_up\<lparr>pgxpool_NewWithConfig := (\<lambda>c poolConfig. Inl (errorString ''failed to connect''))\<rparr>"


definition rename_Option :: Option where
  "rename_Option = OtherOption (\<lambda>s. (None, s\<lparr>Name := ''renamed''\<rparr>))"

definition env_ping_fails :: env where
  "env_ping_fails = env_up\<lparr>Pool_Ping := (\<lambda>p c. Some (errorString ''conn closed''))\<rparr>"

definition example_options :: "Option list" where
  "example_options =
     [GRPCServerOption '':9090'', TechHTTPServerOption '':8080'',
      DBOption ''postgres://orders'', RedisOption, rename_Option]"

definition fresh_ResponseWriter :: ResponseWriter where
  "fresh_ResponseWriter = \<lparr>header = Map.empty, status = None, body = [], Write_error = None\<rparr>"


section \<open>Theorems\<close>

subsection \<open>Attaching a gRPC service\<close>

lemma AddGRPCService_range_unknown:
  "serverName \<notin> address ` set servers \<Longrightarrow>
   AddGRPCService_range servers serverName service description = None"
  by (induction servers) auto

text \<open>
  C3. When no registered gRPC server has the address \<open>serverName\<close>, \<open>AddGRPCService\<close>
  returns the error "gRPC server not found" and the service, with its servers,
  sub-services and pool, is what it was.
\<close>

theorem AddGRPCService_unknown_address:
  assumes "serverName \<notin> address ` set (GRPCServers s)"
  shows "AddGRPCService s serverName service description =
           (Some (errors_New ''gRPC server not found''), s)"
  using assms by (simp add: AddGRPCService_def AddGRPCService_range_unknown)

text \<open>The service \<open>full_Service\<close> has a gRPC server at \<open>:9090\<close> and none at \<open>:9191\<close>.\<close>

theorem AddGRPCService_unknown_address_witness:
  "'':9191'' \<notin> address ` set (GRPCServers full_Service) \<and>
   AddGRPCService full_Service '':9191'' 7 ''orders.Orders'' =
     (Some (errors_New ''gRPC server not found''), full_Service)"
  using AddGRPCService_unknown_address [of "'':9191''" full_Service 7 "''orders.Orders''"]
  by (simp add: full_Service_def)

subsection \<open>Teardown\<close>

lemma Stop_SubServices_calls:
  "Stop_SubServices subs calls = calls @ map (\<lambda>(key, service). SubService_Close key) subs"
  by (induction subs calls rule: Stop_SubServices.induct) (simp_all split: option.split)

lemma Stop_GRPCServers_calls:
  "Stop_GRPCServers servers calls = calls @ map (\<lambda>g. GracefulStop (address g)) servers"
  by (induction servers calls rule: Stop_GRPCServers.induct) simp_all

lemma Stop_HTTPServers_calls:
  "Stop_HTTPServers e c servers calls = calls @ map (\<lambda>h. Shutdown (Addr h) c) servers"
  by (induction e c servers calls rule: Stop_HTTPServers.induct) (simp_all split: option.split)

text \<open>
  C1. \<open>Stop\<close> makes its calls in one fixed order: \<open>Close\<close> on every sub-service, then
  \<open>GracefulStop\<close> on every gRPC server, then \<open>Shutdown\<close> on every HTTP server with the
  context of 30 seconds, then \<open>Close\<close> on the pool if there is one, then the close of
  the error channel. The list of calls depends neither on what \<open>Close\<close> of a sub-service
  returns nor on what \<open>Shutdown\<close> returns, so a step that fails holds back no later
  step. When the channel was open the service is returned with the channel closed; when
  it was closed already, the last call panics.
\<close>

theorem Stop_fixed_order:
  "fst (Stop e s) =
     map (\<lambda>(key, service). SubService_Close key) (SubServices s) @
     map (\<lambda>g. GracefulStop (address g)) (GRPCServers s) @
     map (\<lambda>h. Shutdown (Addr h) (WithTimeout Background (30 * Second))) (HTTPServers s) @
     (case DB s of Some p \<Rightarrow> [DB_Close p] | None \<Rightarrow> []) @
     [close_ErrChan] \<and>
   snd (Stop e s) =
     (case ErrChan s of
        chan_open \<Rightarrow> Inr (s\<lparr>ErrChan := chan_closed\<rparr>)
      | chan_closed \<Rightarrow> Inl ''close of closed channel'')"
  by (simp add: Stop_def Let_def Stop_SubServices_calls Stop_GRPCServers_calls
      Stop_HTTPServers_calls split: option.split chan.split)

text \<open>
  In \<open>full_Service\<close> the sub-service \<open>cache\<close> fails to close and in \<open>env_slow\<close> every
  \<open>Shutdown\<close> fails; all six calls are made.
\<close>

theorem Stop_fixed_order_witness:
  "fst (Stop env_slow full_Service) =
     [SubService_Close ''cache'', SubService_Close ''queue'', GracefulStop '':9090'',
      Shutdown '':8080'' (WithTimeout Background 30000000000),
      DB_Close (Pool ''postgres://orders''), close_ErrChan] \<and>
   snd (Stop env_slow full_Service) = Inr (full_Service\<lparr>ErrChan := chan_closed\<rparr>)"
  using Stop_fixed_order [of env_slow full_Service]
  by (simp add: full_Service_def New_Service_def tech_Server_def Second_def)

subsection \<open>The probe of an HTTP server\<close>

lemma checkHTTPServerUp_loop_True:
  assumes "checkHTTPServerUp_loop e h err k = Some b"
  shows "b"
  using assms
  by (rule checkHTTPServerUp_loop.raw_induct [where P = "\<lambda>e h err k b. b", rotated])
     (simp split: if_splits)

lemma checkHTTPServerUp_loop_needs_dial:
  assumes "checkHTTPServerUp_loop e h err k = Some b"
  shows "err = None \<or> (\<exists>j\<ge>k. net_DialTimeout e (Addr h) (1 * Second) j = None)"
  using assms
proof (rule checkHTTPServerUp_loop.raw_induct
    [where P = "\<lambda>e h err k b. err = None \<or> (\<exists>j\<ge>k. net_DialTimeout e (Addr h) (1 * Second) j = None)",
      rotated])
  fix f e h err k b
  assume IH: "\<And>e h err k b. f e h err k = Some b \<Longrightarrow>
      err = None \<or> (\<exists>j\<ge>k. net_DialTimeout e (Addr h) (1 * Second) j = None)"
    and step: "(if err \<noteq> None
          then f e h (net_DialTimeout e (Addr h) (1 * Second) k) (Suc k)
          else Some True) = Some b"
  show "err = None \<or> (\<exists>j\<ge>k. net_DialTimeout e (Addr h) (1 * Second) j = None)"
  proof (cases "err = None")
    case True then show ?thesis by simp
  next
    case False
    with step have "f e h (net_DialTimeout e (Addr h) (1 * Second) k) (Suc k) = Some b" by simp
    from IH[OF this] show ?thesis
      by (metis Suc_leD order_refl)
  qed
qed

lemma checkHTTPServerUp_loop_dial:
  "net_DialTimeout e (Addr h) (1 * Second) (k + n) = None \<Longrightarrow>
   checkHTTPServerUp_loop e h (Some x) k = Some True"
proof (induction n arbitrary: k x)
  case 0
  then show ?case
    by (subst checkHTTPServerUp_loop.simps, simp, subst checkHTTPServerUp_loop.simps, simp)
next
  case (Suc n)
  show ?case
  proof (cases "net_DialTimeout e (Addr h) (1 * Second) k")
    case None
    then show ?thesis
      by (subst checkHTTPServerUp_loop.simps, simp, subst checkHTTPServerUp_loop.simps, simp)
  next
    case (Some y)
    from Suc.prems have "net_DialTimeout e (Addr h) (1 * Second) (Suc k + n) = None" by simp
    from Suc.IH[OF this] Some show ?thesis
      by (subst checkHTTPServerUp_loop.simps) simp
  qed
qed

lemma checkHTTPServerUp_unreachable:
  assumes "\<And>k. net_DialTimeout e (Addr h) (1 * Second) k \<noteq> None"
  shows "checkHTTPServerUp e h = None"
proof (cases "checkHTTPServerUp e h")
  case None
  then show ?thesis .
next
  case (Some b)
  then have "checkHTTPServerUp_loop e h (Some (errors_New ''http server not ready'')) 0 = Some b"
    by (simp add: checkHTTPServerUp_def)
  from checkHTTPServerUp_loop_needs_dial [OF this]
  obtain j where "net_DialTimeout e (Addr h) (1 * Second) j = None" by blast
  with assms [of j] show ?thesis by contradiction
qed

lemma checkHTTPServerUp_reachable:
  assumes "net_DialTimeout e (Addr h) (1 * Second) n = None"
  shows "checkHTTPServerUp e h = Some True"
  using checkHTTPServerUp_loop_dial[of e h 0 n] assms by (simp add: checkHTTPServerUp_def)

text \<open>
  C2. The probe is not bounded. In \<open>env_down\<close> no dial to \<open>:8080\<close> is ever accepted:
  \<open>checkHTTPServerUp\<close> does not return, and so neither does \<open>IsAlive\<close> of a service
  that holds this server. By \<open>checkHTTPServerUp_loop_True\<close> the probe answers true
  whenever it answers.
\<close>

theorem IsAlive_unreachable_never_returns:
  "checkHTTPServerUp env_down tech_Server = None \<and> IsAlive env_down full_Service = None"
proof -
  have "checkHTTPServerUp env_down tech_Server = None"
    by (rule checkHTTPServerUp_unreachable) (simp add: env_down_def)
  then show ?thesis
    by (simp add: IsAlive_def full_Service_def New_Service_def)
qed

subsection \<open>Readiness\<close>

text \<open>
  C4. A service without sub-services, servers and pool: the sweep \<open>Ready\<close> returns and
  stores true in \<open>isReady\<close>, and \<open>IsAlive\<close> returns true.
\<close>

theorem empty_Service_ready_and_alive:
  assumes "SubServices s = []" and "GRPCServers s = []" and "HTTPServers s = []"
    and "DB s = None"
  shows "Ready e s = Some (s\<lparr>isReady := True\<rparr>) \<and> IsAlive e s = Some True"
  using assms by (simp add: Ready_def IsAlive_def)

text \<open>The service that \<open>New\<close> starts from holds nothing.\<close>

theorem empty_Service_ready_and_alive_witness:
  "SubServices (New_Service Background ''orders'') = [] \<and>
   GRPCServers (New_Service Background ''orders'') = [] \<and>
   HTTPServers (New_Service Background ''orders'') = [] \<and>
   DB (New_Service Background ''orders'') = None \<and>
   Ready env_up (New_Service Background ''orders'') =
     Some ((New_Service Background ''orders'')\<lparr>isReady := True\<rparr>) \<and>
   IsAlive env_up (New_Service Background ''orders'') = Some True"
  using empty_Service_ready_and_alive [of "New_Service Background ''orders''" env_up]
  by (simp add: New_Service_def)

lemma Ready_SubServices_False: "Ready_SubServices subs False = False"
  by (induction subs) auto

lemma Ready_SubServices_not_ready:
  "(key, sub) \<in> set subs \<Longrightarrow> \<not> sub_Ready sub \<Longrightarrow> Ready_SubServices subs areReady = False"
  by (induction subs areReady rule: Ready_SubServices.induct)
     (auto simp: Ready_SubServices_False)

text \<open>
  C5. When one sub-service answers \<open>Ready\<close> with false, a sweep that returns stores
  false in \<open>isReady\<close>, whatever the other sub-services, the servers and the pool
  answer.
\<close>

theorem Ready_one_SubService_not_ready:
  assumes "(key, sub) \<in> set (SubServices s)" and "\<not> sub_Ready sub"
    and "Ready e s = Some s'"
  shows "s' = s\<lparr>isReady := False\<rparr> \<and> isReady s' = False"
  using assms Ready_SubServices_not_ready [of key sub "SubServices s" True]
  by (auto simp: Ready_def Let_def split: bind_splits)

text \<open>
  In \<open>full_Service\<close> the sub-service \<open>queue\<close> is not ready; in \<open>env_slow\<close> the
  HTTP server accepts the third dial, so the sweep returns.
\<close>

theorem Ready_one_SubService_not_ready_witness:
  "(''queue'', \<lparr>sub_Ready = False, sub_Name = ''queue'', sub_Close = None\<rparr>)
     \<in> set (SubServices full_Service) \<and>
   \<not> sub_Ready \<lparr>sub_Ready = False, sub_Name = ''queue'', sub_Close = None\<rparr> \<and>
   Ready env_slow full_Service = Some (full_Service\<lparr>isReady := False\<rparr>) \<and>
   isReady (full_Service\<lparr>isReady := False\<rparr>) = False"
proof -
  have up: "checkHTTPServerUp env_slow tech_Server = Some True"
    by (rule checkHTTPServerUp_reachable [of _ _ 2]) (simp add: env_slow_def)
  have sweep: "Ready env_slow full_Service = Some (full_Service\<lparr>isReady := False\<rparr>)"
    using up by (simp add: Ready_def full_Service_def New_Service_def)
  have mem: "(''queue'', \<lparr>sub_Ready = False, sub_Name = ''queue'', sub_Close = None\<rparr>)
     \<in> set (SubServices full_Service)"
    by (simp add: full_Service_def)
  from Ready_one_SubService_not_ready [OF mem _ sweep] mem sweep show ?thesis by simp
qed


subsection \<open>The constructor\<close>

lemma New_range_append:
  "New_range e s pre = (Some s', None) \<Longrightarrow> New_range e s (pre @ post) = New_range e s' post"
  by (induction pre arbitrary: s) (auto split: prod.splits option.splits)

text \<open>
  C6. \<open>New\<close> applies the options in order and stops at the first that fails: when the
  options \<open>pre\<close> have all succeeded and have led to the service \<open>s'\<close>, and \<open>Apply\<close> of
  the next option on \<open>s'\<close> returns an error, then \<open>New\<close> returns this error and the nil
  service, whatever options \<open>post\<close> follow.
\<close>

theorem New_first_error:
  assumes "New e c name pre = (Some s', None)" and "fst (Apply e opt s') = Some err"
  shows "New e c name (pre @ opt # post) = (None, Some err)"
proof -
  from assms(1) have "New_range e (New_Service c name) (pre @ opt # post) = New_range e s' (opt # post)"
    unfolding New_def by (rule New_range_append)
  with assms(2) show ?thesis
    by (simp add: New_def split: prod.splits option.splits)
qed

text \<open>
  In \<open>env_no_db\<close> the pool cannot be opened: the gRPC option succeeds, the \<open>DBOption\<close>
  fails, and its error is the result though two more options follow.
\<close>

theorem New_first_error_witness:
  "New env_no_db Background ''orders'' [GRPCServerOption '':9090''] =
     (Some ((New_Service Background ''orders'')
        \<lparr>GRPCServers := [\<lparr>address = '':9090'', server = grpc_NewServer\<rparr>]\<rparr>), None) \<and>
   fst (Apply env_no_db (DBOption ''postgres://orders'')
     ((New_Service Background ''orders'')
        \<lparr>GRPCServers := [\<lparr>address = '':9090'', server = grpc_NewServer\<rparr>]\<rparr>)) =
     Some (errorString ''failed to connect'') \<and>
   New env_no_db Background ''orders''
     ([GRPCServerOption '':9090''] @ DBOption ''postgres://orders'' #
      [TechHTTPServerOption '':8080'', rename_Option]) =
     (None, Some (errorString ''failed to connect''))"
proof -
  have pre: "New env_no_db Background ''orders'' [GRPCServerOption '':9090''] =
     (Some ((New_Service Background ''orders'')
        \<lparr>GRPCServers := [\<lparr>address = '':9090'', server = grpc_NewServer\<rparr>]\<rparr>), None)"
    by (simp add: New_def New_Service_def)
  have failing: "fst (Apply env_no_db (DBOption ''postgres://orders'')
     ((New_Service Background ''orders'')
        \<lparr>GRPCServers := [\<lparr>address = '':9090'', server = grpc_NewServer\<rparr>]\<rparr>)) =
     Some (errorString ''failed to connect'')"
    by (simp add: env_no_db_def env_up_def)
  from New_first_error [OF pre failing] pre failing show ?thesis by simp
qed

subsection \<open>Start\<close>





subsection \<open>The liveness endpoint\<close>

lemma alive_all_true:
  "\<forall>c \<in> set cs. c = Some True \<Longrightarrow> alive cs w = Some (WriteHeader w StatusOK)"
  by (induction cs) simp_all

lemma alive_first_false:
  "\<forall>c \<in> set pre. c = Some True \<Longrightarrow>
   alive (pre @ Some False # post) w = Some (AnswerWithJSONError w StatusServiceUnavailable)"
  by (induction pre) simp_all

lemma json_Marshal_unavailable:
  "json_Marshal \<lparr>ErrorCode = 503,
                 ErrorDetails = ''error during request processing''\<rparr> =
   Inr (''{'' @ [CHR 0x22] @ ''ErrorCode'' @ [CHR 0x22] @ '':503,'' @
        [CHR 0x22] @ ''ErrorDetails'' @ [CHR 0x22] @ '':'' @
        [CHR 0x22] @ ''error during request processing'' @ [CHR 0x22] @ ''}'')"
  by code_simp

lemma AnswerWithJSONError_written:
  assumes "status w = None" and "Write_error w = None"
  shows "AnswerWithJSONError w StatusServiceUnavailable =
     Inr (w\<lparr>header := (header w)(''Content-Type'' \<mapsto> ''application/json''),
            status := Some StatusServiceUnavailable,
            body := body w @ ''{'' @ [CHR 0x22] @ ''ErrorCode'' @ [CHR 0x22] @ '':503,'' @
              [CHR 0x22] @ ''ErrorDetails'' @ [CHR 0x22] @ '':'' @
              [CHR 0x22] @ ''error during request processing'' @ [CHR 0x22] @ ''}''\<rparr>)"
  using assms
  by (simp add: AnswerWithJSONError_def json_Marshal_unavailable Header_Set_def
      WriteHeader_def Write_def StatusServiceUnavailable_def)

lemma AnswerWithJSONError_not_written:
  assumes "status w = None" and "Write_error w = Some err"
  shows "\<exists>w'. AnswerWithJSONError w StatusServiceUnavailable = Inr w' \<and>
           status w' = Some StatusServiceUnavailable \<and> body w' = body w"
  using assms
  by (simp add: AnswerWithJSONError_def json_Marshal_unavailable Header_Set_def Header_Del_def
      WriteHeader_def Write_def http_Error_def StatusServiceUnavailable_def
      StatusInternalServerError_def Let_def)

text \<open>
  C8. The handler runs on a writer on which nothing is written yet. When every checker
  returns true, it writes the status 200 and no body. When the first checker that does
  not return true returns false, it writes the status 503, and with a writer that
  accepts the body, the content type \<open>application/json\<close> and the body
  \<open>{"ErrorCode":503,"ErrorDetails":"error during request processing"}\<close>: the code as a
  number and a text that does not depend on the checker that failed. With a writer that
  refuses the body the status is 503 still and nothing is in the body.
\<close>

theorem alive_response:
  assumes "status w = None" and "body w = []"
  shows
    "((\<forall>c \<in> set cs. c = Some True) \<longrightarrow>
        alive cs w = Some (Inr (w\<lparr>status := Some StatusOK\<rparr>))) \<and>
     ((\<forall>c \<in> set pre. c = Some True) \<and> cs = pre @ Some False # post \<longrightarrow>
        (Write_error w = None \<longrightarrow>
           alive cs w =
             Some (Inr (w\<lparr>header := (header w)(''Content-Type'' \<mapsto> ''application/json''),
                          status := Some StatusServiceUnavailable,
                          body := ''{'' @ [CHR 0x22] @ ''ErrorCode'' @ [CHR 0x22] @ '':503,'' @
                            [CHR 0x22] @ ''ErrorDetails'' @ [CHR 0x22] @ '':'' @
                            [CHR 0x22] @ ''error during request processing'' @ [CHR 0x22] @
                            ''}''\<rparr>))) \<and>
        (Write_error w \<noteq> None \<longrightarrow>
           (\<exists>w'. alive cs w = Some (Inr w') \<and>
              status w' = Some StatusServiceUnavailable \<and> body w' = [])))"
proof (intro conjI impI)
  assume "\<forall>c \<in> set cs. c = Some True"
  then have "alive cs w = Some (WriteHeader w StatusOK)"
    by (rule alive_all_true)
  with assms show "alive cs w = Some (Inr (w\<lparr>status := Some StatusOK\<rparr>))"
    by (simp add: WriteHeader_def StatusOK_def)
next
  assume "(\<forall>c \<in> set pre. c = Some True) \<and> cs = pre @ Some False # post"
    and "Write_error w = None"
  with assms show "alive cs w =
      Some (Inr (w\<lparr>header := (header w)(''Content-Type'' \<mapsto> ''application/json''),
                   status := Some StatusServiceUnavailable,
                   body := ''{'' @ [CHR 0x22] @ ''ErrorCode'' @ [CHR 0x22] @ '':503,'' @
                     [CHR 0x22] @ ''ErrorDetails'' @ [CHR 0x22] @ '':'' @
                     [CHR 0x22] @ ''error during request processing'' @ [CHR 0x22] @
                     ''}''\<rparr>))"
    by (simp add: alive_first_false AnswerWithJSONError_written)
next
  assume split: "(\<forall>c \<in> set pre. c = Some True) \<and> cs = pre @ Some False # post"
    and "Write_error w \<noteq> None"
  then obtain err where "Write_error w = Some err" by blast
  from AnswerWithJSONError_not_written [OF assms(1) this] obtain w'
    where "AnswerWithJSONError w StatusServiceUnavailable = Inr w'"
      and "status w' = Some StatusServiceUnavailable" and "body w' = body w"
    by blast
  with assms split
  show "\<exists>w'. alive cs w = Some (Inr w') \<and>
      status w' = Some StatusServiceUnavailable \<and> body w' = []"
    by (simp add: alive_first_false)
qed

text \<open>
  The handler of \<open>full_Service\<close>, whose one checker is \<open>IsAlive\<close>: alive in \<open>env_up\<close>,
  not alive in \<open>env_ping_fails\<close>, where the pool does not answer; and the same on a
  writer that refuses the body.
\<close>

theorem alive_response_witness:
  "status fresh_ResponseWriter = None \<and> body fresh_ResponseWriter = [] \<and>
   Write_error fresh_ResponseWriter = None \<and>
   NewHealthHandler [IsAlive env_up full_Service] = [Some True] \<and>
   health_live env_up full_Service fresh_ResponseWriter =
     Some (Inr (fresh_ResponseWriter\<lparr>status := Some 200\<rparr>)) \<and>
   NewHealthHandler [IsAlive env_ping_fails full_Service] = [] @ Some False # [] \<and>
   health_live env_ping_fails full_Service fresh_ResponseWriter =
     Some (Inr (fresh_ResponseWriter
       \<lparr>header := [''Content-Type'' \<mapsto> ''application/json''],
        status := Some 503,
        body := ''{'' @ [CHR 0x22] @ ''ErrorCode'' @ [CHR 0x22] @ '':503,'' @
          [CHR 0x22] @ ''ErrorDetails'' @ [CHR 0x22] @ '':'' @
          [CHR 0x22] @ ''error during request processing'' @ [CHR 0x22] @ ''}''\<rparr>)) \<and>
   Write_error (fresh_ResponseWriter\<lparr>Write_error := Some (errorString ''broken pipe'')\<rparr>) \<noteq> None \<and>
   (\<exists>w'. health_live env_ping_fails full_Service
            (fresh_ResponseWriter\<lparr>Write_error := Some (errorString ''broken pipe'')\<rparr>) =
          Some (Inr w') \<and>
      status w' = Some 503 \<and> body w' = [])"
proof -
  have dial_up: "checkHTTPServerUp env_up tech_Server = Some True"
    by (rule checkHTTPServerUp_reachable [of _ _ 0]) (simp add: env_up_def)
  have dial_up': "checkHTTPServerUp env_ping_fails tech_Server = Some True"
    by (rule checkHTTPServerUp_reachable [of _ _ 0]) (simp add: env_ping_fails_def env_up_def)
  have up: "IsAlive env_up full_Service = Some True"
    using dial_up
    by (simp add: IsAlive_def full_Service_def New_Service_def checkGRPCServerUp_def
        checkDBAlive_def env_up_def)
  have down: "IsAlive env_ping_fails full_Service = Some False"
    using dial_up'
    by (simp add: IsAlive_def full_Service_def New_Service_def checkGRPCServerUp_def
        checkDBAlive_def env_ping_fails_def env_up_def)
  have fresh: "status fresh_ResponseWriter = None" "body fresh_ResponseWriter = []"
    "Write_error fresh_ResponseWriter = None" "header fresh_ResponseWriter = Map.empty"
    by (simp_all add: fresh_ResponseWriter_def)
  have broken:
    "status (fresh_ResponseWriter\<lparr>Write_error := Some (errorString ''broken pipe'')\<rparr>) = None"
    "body (fresh_ResponseWriter\<lparr>Write_error := Some (errorString ''broken pipe'')\<rparr>) = []"
    by (simp_all add: fresh_ResponseWriter_def)
  from alive_response [OF fresh(1,2), of "[Some True]" "[]" "[]"]
    alive_response [OF fresh(1,2), of "[Some False]" "[]" "[]"]
    alive_response [OF broken, of "[Some False]" "[]" "[]"]
  show ?thesis
    using up down fresh
    by (simp add: health_live_def NewHealthHandler_def StatusOK_def StatusServiceUnavailable_def)
qed

subsection \<open>The addresses of the gRPC servers\<close>








subsection \<open>The readiness flag before the first sweep\<close>

lemma Apply_isReady:
  assumes "\<forall>f. opt = OtherOption f \<longrightarrow> (\<forall>s0. isReady (snd (f s0)) = isReady s0)"
  shows "isReady (snd (Apply e opt s)) = isReady s"
  using assms by (cases opt) (auto split: sum.splits)

lemma New_range_isReady:
  assumes "New_range e s options = (Some s', None)"
    and "\<forall>f. OtherOption f \<in> set options \<longrightarrow> (\<forall>s0. isReady (snd (f s0)) = isReady s0)"
  shows "isReady s' = isReady s"
  using assms
proof (induction options arbitrary: s)
  case Nil
  then show ?case by simp
next
  case (Cons opt rest)
  obtain r s1 where step: "Apply e opt s = (r, s1)" by (cases "Apply e opt s")
  with Cons.prems(1) have rest: "New_range e s1 rest = (Some s', None)"
    by (auto split: option.splits)
  from Cons.prems(2) have "\<forall>f. opt = OtherOption f \<longrightarrow> (\<forall>s0. isReady (snd (f s0)) = isReady s0)"
    by simp
  from Apply_isReady [OF this, of e s] step have "isReady s1 = isReady s" by simp
  moreover from Cons.IH [OF rest] Cons.prems(2) have "isReady s' = isReady s1" by simp
  ultimately show ?case by simp
qed

lemma AddGRPCService_isReady:
  "isReady (snd (AddGRPCService s serverName service description)) = isReady s"
  by (simp add: AddGRPCService_def split: option.splits)

lemma Start_isReady:
  "Start e s = Some (r, s', gs) \<Longrightarrow> isReady s' = isReady s"
  by (auto simp: Start_def Let_def split: option.splits if_splits)

lemma Stop_isReady:
  "snd (Stop e s) = Inr s' \<Longrightarrow> isReady s' = isReady s"
  by (auto simp: Stop_def Let_def split: chan.splits)

text \<open>
  C10. \<open>New\<close> stores false in \<open>isReady\<close> before it applies an option, and the service
  that it returns still holds false. Nothing but the sweep \<open>Ready\<close> writes the flag:
  \<open>AddGRPCService\<close>, \<open>AddHTTPServer\<close>, \<open>SetContext\<close>, \<open>Start\<close> and \<open>Stop\<close> leave it
  false. The field is unexported, so an option that is not of the package cannot write
  it; this is the assumption on \<open>OtherOption\<close>.
\<close>

theorem New_isReady_False:
  assumes "New e c name options = (Some s, None)"
    and "\<forall>f. OtherOption f \<in> set options \<longrightarrow> (\<forall>s0. isReady (snd (f s0)) = isReady s0)"
  shows "isReady (New_Service c name) = False \<and> isReady s = False \<and>
         isReady (snd (AddGRPCService s serverName service description)) = False \<and>
         isReady (AddHTTPServer s httpServer) = False \<and>
         isReady (SetContext s c') = False \<and>
         (\<forall>r s' gs. Start e s = Some (r, s', gs) \<longrightarrow> isReady s' = False) \<and>
         (\<forall>s'. snd (Stop e s) = Inr s' \<longrightarrow> isReady s' = False)"
proof -
  have init: "isReady (New_Service c name) = False"
    by (simp add: New_Service_def)
  from assms have "isReady s = isReady (New_Service c name)"
    unfolding New_def by (rule New_range_isReady)
  with init have "isReady s = False" by simp
  with init show ?thesis
    by (auto simp: AddGRPCService_isReady AddHTTPServer_def SetContext_def
        dest: Start_isReady Stop_isReady)
qed

text \<open>The four options of the package and a renaming option of the caller.\<close>

theorem New_isReady_False_witness:
  "map_option isReady (fst (New env_up Background ''orders'' example_options)) = Some False \<and>
   snd (New env_up Background ''orders'' example_options) = None"
proof -
  have "\<exists>s. New env_up Background ''orders'' example_options = (Some s, None)"
    by (simp add: New_def example_options_def rename_Option_def env_up_def)
  then obtain s where built: "New env_up Background ''orders'' example_options = (Some s, None)"
    by blast
  have others: "\<forall>f. OtherOption f \<in> set example_options \<longrightarrow>
      (\<forall>s0. isReady (snd (f s0)) = isReady s0)"
    by (auto simp: example_options_def rename_Option_def)
  from New_isReady_False [OF built others] built show ?thesis by simp
qed


end
